theory Spec2Isabelle
  imports Main
begin

section \<open>The object model of the host language\<close>

text \<open>
  The module \<^verbatim>\<open>instance.js\<close> manipulates JavaScript objects in place, returns
  them by reference and throws exceptions. The embedding therefore uses an explicit
  heap of objects, values that are either primitives or references into the heap, and
  an outcome type that carries the heap as it is when a call returns or throws.

  Objects are the ordinary objects of the language: a list of named properties, a
  prototype link and an extensible flag. A property is a data property (a value, with
  its enumerable and writable attributes) or an accessor property (a getter and a
  setter, each a function or \<^verbatim>\<open>undefined\<close>). Numbers are integers and property
  names are strings.
\<close>

type_synonym addr = nat

datatype val = Undefined | Null | Bool bool | Num int | Str string | Ref addr

text \<open>
  What kind of object an address holds: an ordinary object, a function written by the
  user, or one of three built-in functions: \<^verbatim>\<open>Object.prototype.hasOwnProperty\<close> and
  the getter and the setter of the accessor \<^verbatim>\<open>Object.prototype.__proto__\<close>.
\<close>

datatype klass = Plain | Function | HasOwnProperty | ProtoGetter | ProtoSetter

text \<open>\<open>Data v e w\<close>: value, enumerable, writable. \<open>Accessor g s e\<close>: getter, setter, enumerable.\<close>

datatype slot = Data val bool bool | Accessor val val bool

fun senum :: "slot \<Rightarrow> bool" where
  "senum (Data v e w) = e"
| "senum (Accessor g s e) = e"

record obj =
  props :: "(string \<times> slot) list"
  plink :: val
  klass :: klass
  extensible :: bool

type_synonym heap = "obj list"

datatype error = TypeError | ReferenceError | Thrown val

datatype 'a outcome = Return 'a heap | Throw error heap

definition andThen :: "'a outcome \<Rightarrow> ('a \<Rightarrow> heap \<Rightarrow> 'b outcome) \<Rightarrow> 'b outcome" where
  "andThen m f = (case m of Return a h \<Rightarrow> f a h | Throw e h \<Rightarrow> Throw e h)"

text \<open>
  The host: the native \<^verbatim>\<open>Object.*\<close> primitives it may or may not provide (they are
  not code of this module, so each is a parameter), the two capability flags the
  module computes once when it is loaded, the function object of the module's private
  bridging constructor, the addresses of the intrinsic prototypes, whether the engine
  honours the module's \<^verbatim>\<open>'use strict'\<close> directive, the global variables (where a
  free identifier of the module is looked up), and the behaviour of user functions.
  Whether the host has the accessor \<^verbatim>\<open>__proto__\<close> is a matter of the heap: it is a
  property of the object \<^verbatim>\<open>Object.prototype\<close>.
\<close>

record env =
  Object_assign :: "(val list \<Rightarrow> heap \<Rightarrow> val outcome) option"
  Object_create :: "(val list \<Rightarrow> heap \<Rightarrow> val outcome) option"
  Object_defineProperty :: "(val list \<Rightarrow> heap \<Rightarrow> val outcome) option"
  Object_getOwnPropertyDescriptor :: "(val list \<Rightarrow> heap \<Rightarrow> val outcome) option"
  Object_getPrototypeOf :: "(val list \<Rightarrow> heap \<Rightarrow> val outcome) option"
  Object_setPrototypeOf :: "(val list \<Rightarrow> heap \<Rightarrow> val outcome) option"
  DP_IS_OKAY :: bool
  PROTO :: bool
  PrototypalIntermediate :: addr
  Object_prototype :: addr
  Boolean_prototype :: addr
  Number_prototype :: addr
  String_prototype :: addr
  strict :: bool
  globals :: "string \<Rightarrow> val option"
  call_function :: "addr \<Rightarrow> val \<Rightarrow> val list \<Rightarrow> heap \<Rightarrow> val outcome"

subsection \<open>Primitive tests\<close>

datatype jstype = T_undefined | T_object | T_boolean | T_number | T_string | T_function

definition lookup :: "heap \<Rightarrow> addr \<Rightarrow> obj option" where
  "lookup h a = (if a < length h then Some (h ! a) else None)"

text \<open>The \<^verbatim>\<open>typeof\<close> operator; \<^verbatim>\<open>typeof null\<close> is \<^verbatim>\<open>'object'\<close>.\<close>

definition typeof :: "heap \<Rightarrow> val \<Rightarrow> jstype" where
  "typeof h v =
     (case v of
        Undefined \<Rightarrow> T_undefined
      | Null \<Rightarrow> T_object
      | Bool b \<Rightarrow> T_boolean
      | Num n \<Rightarrow> T_number
      | Str s \<Rightarrow> T_string
      | Ref a \<Rightarrow>
          (case lookup h a of
             None \<Rightarrow> T_object
           | Some ob \<Rightarrow> (if klass ob = Plain then T_object else T_function)))"

text \<open>\<^verbatim>\<open>v == null\<close> holds of \<^verbatim>\<open>null\<close> and \<^verbatim>\<open>undefined\<close> only.\<close>

definition nullish :: "val \<Rightarrow> bool" where
  "nullish v = (v = Null \<or> v = Undefined)"

text \<open>\<^verbatim>\<open>!v\<close>: the falsy values.\<close>

definition falsy :: "val \<Rightarrow> bool" where
  "falsy v = (v = Undefined \<or> v = Null \<or> v = Bool False \<or> v = Num 0 \<or> v = Str [])"

definition arg :: "val list \<Rightarrow> nat \<Rightarrow> val" where
  "arg args i = (if i < length args then args ! i else Undefined)"

subsection \<open>Wrapper objects of primitives\<close>

text \<open>The decimal numeral of an index, as the name of the property.\<close>

definition digit :: "nat \<Rightarrow> char" where
  "digit d = ''0123456789'' ! d"

fun digits :: "nat \<Rightarrow> nat \<Rightarrow> string" where
  "digits 0 n = []"
| "digits (Suc fuel) n =
     (if n < 10 then [digit n]
      else digits fuel (n div 10) @ [digit (n mod 10)])"

definition index_key :: "nat \<Rightarrow> string" where
  "index_key n = digits (Suc n) n"

text \<open>
  The own properties of a String object: one enumerable, read-only property per
  character, named by its index, and the read-only, non-enumerable \<^verbatim>\<open>length\<close>.
\<close>

definition string_slots :: "string \<Rightarrow> (string \<times> slot) list" where
  "string_slots s =
     map (\<lambda>i. (index_key i, Data (Str [s ! i]) True False)) [0 ..< length s]
       @ [(''length'', Data (Num (int (length s))) False False)]"

text \<open>
  \<^verbatim>\<open>Object(v)\<close> for a value that is not an object: the wrapper of a primitive, and
  a new empty object for \<^verbatim>\<open>null\<close> and \<^verbatim>\<open>undefined\<close>.
\<close>

definition boxed :: "env \<Rightarrow> val \<Rightarrow> obj" where
  "boxed E v =
     (case v of
        Str s \<Rightarrow>
          \<lparr>props = string_slots s, plink = Ref (String_prototype E), klass = Plain,
           extensible = True\<rparr>
      | Num n \<Rightarrow>
          \<lparr>props = [], plink = Ref (Number_prototype E), klass = Plain, extensible = True\<rparr>
      | Bool b \<Rightarrow>
          \<lparr>props = [], plink = Ref (Boolean_prototype E), klass = Plain, extensible = True\<rparr>
      | _ \<Rightarrow>
          \<lparr>props = [], plink = Ref (Object_prototype E), klass = Plain, extensible = True\<rparr>)"

definition Object_cast :: "env \<Rightarrow> val \<Rightarrow> heap \<Rightarrow> val \<times> heap" where
  "Object_cast E v h =
     (case v of
        Ref a \<Rightarrow> (v, h)
      | _ \<Rightarrow> (Ref (length h), h @ [boxed E v]))"

text \<open>An object literal \<^verbatim>\<open>{k: v, ...}\<close>.\<close>

definition literal :: "env \<Rightarrow> (string \<times> val) list \<Rightarrow> obj" where
  "literal E kvs =
     \<lparr>props = map (\<lambda>(k, v). (k, Data v True True)) kvs,
      plink = Ref (Object_prototype E), klass = Plain, extensible = True\<rparr>"

subsection \<open>Finding a property\<close>

text \<open>
  The prototype chain is walked with fuel, the number of objects of the heap: a chain
  without a cycle is never longer.
\<close>

fun chain_find :: "nat \<Rightarrow> heap \<Rightarrow> val \<Rightarrow> string \<Rightarrow> slot option" where
  "chain_find 0 h v k = None"
| "chain_find (Suc n) h (Ref a) k =
     (case lookup h a of
        None \<Rightarrow> None
      | Some ob \<Rightarrow>
          (case map_of (props ob) k of
             Some p \<Rightarrow> Some p
           | None \<Rightarrow> chain_find n h (plink ob) k))"
| "chain_find (Suc n) h v k = None"

text \<open>The property \<open>k\<close> of a value that is not \<^verbatim>\<open>null\<close> or \<^verbatim>\<open>undefined\<close>, own or inherited.\<close>

definition find_slot :: "env \<Rightarrow> val \<Rightarrow> string \<Rightarrow> heap \<Rightarrow> slot option" where
  "find_slot E v k h =
     (case v of
        Ref a \<Rightarrow> chain_find (length h) h v k
      | _ \<Rightarrow>
          (case map_of (props (boxed E v)) k of
             Some p \<Rightarrow> Some p
           | None \<Rightarrow> chain_find (length h) h (plink (boxed E v)) k))"

text \<open>\<^verbatim>\<open>k in v\<close>: a type error unless \<open>v\<close> is an object.\<close>

definition has_property :: "val \<Rightarrow> string \<Rightarrow> heap \<Rightarrow> bool outcome" where
  "has_property v k h =
     (case v of
        Ref a \<Rightarrow> Return (chain_find (length h) h v k \<noteq> None) h
      | _ \<Rightarrow> Throw TypeError h)"

definition has_own :: "env \<Rightarrow> val \<Rightarrow> string \<Rightarrow> heap \<Rightarrow> bool" where
  "has_own E v k h =
     (case v of
        Ref a \<Rightarrow> (case lookup h a of None \<Rightarrow> False | Some ob \<Rightarrow> map_of (props ob) k \<noteq> None)
      | _ \<Rightarrow> map_of (props (boxed E v)) k \<noteq> None)"

subsection \<open>The prototype link and the built-in functions\<close>

fun on_chain :: "nat \<Rightarrow> heap \<Rightarrow> val \<Rightarrow> addr \<Rightarrow> bool" where
  "on_chain 0 h v a = False"
| "on_chain (Suc n) h (Ref b) a =
     (b = a \<or> (case lookup h b of None \<Rightarrow> False | Some ob \<Rightarrow> on_chain n h (plink ob) a))"
| "on_chain (Suc n) h v a = False"

text \<open>The values a prototype link can hold: an object or \<^verbatim>\<open>null\<close>.\<close>

definition is_link :: "val \<Rightarrow> bool" where
  "is_link p = (case p of Ref b \<Rightarrow> True | Null \<Rightarrow> True | _ \<Rightarrow> False)"

text \<open>The getter of \<^verbatim>\<open>Object.prototype.__proto__\<close>, called on \<open>this\<close>.\<close>

definition proto_get :: "env \<Rightarrow> val \<Rightarrow> heap \<Rightarrow> val outcome" where
  "proto_get E this h =
     (case this of
        Undefined \<Rightarrow> Throw TypeError h
      | Null \<Rightarrow> Throw TypeError h
      | Ref a \<Rightarrow> Return (case lookup h a of None \<Rightarrow> Null | Some ob \<Rightarrow> plink ob) h
      | _ \<Rightarrow> Return (plink (boxed E this)) h)"

text \<open>
  The setter of \<^verbatim>\<open>Object.prototype.__proto__\<close>, called on \<open>this\<close> with \<open>p\<close>: a value
  that is neither an object nor \<^verbatim>\<open>null\<close> is ignored, and so is the call on a
  primitive; the current prototype is accepted as it is; an object that is not
  extensible, and a prototype whose own chain leads back to \<open>this\<close>, are refused.
\<close>

definition proto_set :: "env \<Rightarrow> val \<Rightarrow> val \<Rightarrow> heap \<Rightarrow> val outcome" where
  "proto_set E this p h =
     (case this of
        Undefined \<Rightarrow> Throw TypeError h
      | Null \<Rightarrow> Throw TypeError h
      | Ref a \<Rightarrow>
          (case lookup h a of
             None \<Rightarrow> Return Undefined h
           | Some ob \<Rightarrow>
               (if \<not> is_link p then Return Undefined h
                else if plink ob = p then Return Undefined h
                else if \<not> extensible ob then Throw TypeError h
                else if on_chain (length h) h p a then Throw TypeError h
                else Return Undefined (h[a := ob\<lparr>plink := p\<rparr>])))
      | _ \<Rightarrow> Return Undefined h)"

text \<open>
  The call \<open>f\<close>\<^verbatim>\<open>.call(this, ...args)\<close>: a type error unless \<open>f\<close> is a function; a
  built-in does what the language says, a user function what the host parameter says.
\<close>

definition invoke :: "env \<Rightarrow> val \<Rightarrow> val \<Rightarrow> val list \<Rightarrow> heap \<Rightarrow> val outcome" where
  "invoke E f this args h =
     (case f of
        Ref fa \<Rightarrow>
          (case lookup h fa of
             None \<Rightarrow> Throw TypeError h
           | Some fo \<Rightarrow>
               (case klass fo of
                  Plain \<Rightarrow> Throw TypeError h
                | Function \<Rightarrow> call_function E fa this args h
                | HasOwnProperty \<Rightarrow>
                    (case args of
                       [Str name] \<Rightarrow>
                         (if nullish this then Throw TypeError h
                          else Return (Bool (has_own E this name h)) h)
                     | _ \<Rightarrow> call_function E fa this args h)
                | ProtoGetter \<Rightarrow> proto_get E this h
                | ProtoSetter \<Rightarrow> proto_set E this (arg args 0) h))
      | _ \<Rightarrow> Throw TypeError h)"

subsection \<open>Reading properties\<close>

text \<open>
  \<^verbatim>\<open>v[k]\<close> as a read: the value of a data property, the result of the getter of an
  accessor property, \<^verbatim>\<open>undefined\<close> where there is no property or no getter.
\<close>

definition get :: "env \<Rightarrow> val \<Rightarrow> string \<Rightarrow> heap \<Rightarrow> val outcome" where
  "get E v k h =
     (if nullish v then Throw TypeError h
      else
        (case find_slot E v k h of
           None \<Rightarrow> Return Undefined h
         | Some (Data x e w) \<Rightarrow> Return x h
         | Some (Accessor g s e) \<Rightarrow>
             (if g = Undefined then Return Undefined h else invoke E g v [] h)))"

text \<open>
  The method call \<^verbatim>\<open>x.hasOwnProperty(name)\<close>: the method is looked up on \<open>x\<close>, so
  an object that does not inherit it makes the call a type error, and an object that
  overrides it runs the override.
\<close>

definition call_hasOwnProperty :: "env \<Rightarrow> val \<Rightarrow> string \<Rightarrow> heap \<Rightarrow> val outcome" where
  "call_hasOwnProperty E x name h =
     andThen (get E x ''hasOwnProperty'' h) (\<lambda>f h1. invoke E f x [Str name] h1)"

subsection \<open>Enumeration\<close>

text \<open>The enumerable own properties of an object that are not among the names seen.\<close>

definition own_enum :: "obj \<Rightarrow> string list \<Rightarrow> string list" where
  "own_enum ob seen =
     [k \<leftarrow> remdups (map fst (props ob)).
        k \<notin> set seen \<and> (case map_of (props ob) k of None \<Rightarrow> False | Some p \<Rightarrow> senum p)]"

text \<open>
  \<^verbatim>\<open>for (k in v)\<close>: the enumerable properties of \<open>v\<close> and then of its prototypes,
  a name being visited once and a property shadowed by one nearer to \<open>v\<close> not at all.
  The properties of an object are visited in the order they were created, and the
  keys are taken when the loop starts.
\<close>

fun enum_keys :: "nat \<Rightarrow> heap \<Rightarrow> val \<Rightarrow> string list \<Rightarrow> string list" where
  "enum_keys 0 h v seen = []"
| "enum_keys (Suc n) h (Ref a) seen =
     (case lookup h a of
        None \<Rightarrow> []
      | Some ob \<Rightarrow> own_enum ob seen @ enum_keys n h (plink ob) (seen @ map fst (props ob)))"
| "enum_keys (Suc n) h v seen = []"

definition for_in_keys :: "env \<Rightarrow> val \<Rightarrow> heap \<Rightarrow> string list" where
  "for_in_keys E v h =
     (case v of
        Undefined \<Rightarrow> []
      | Null \<Rightarrow> []
      | Ref a \<Rightarrow> enum_keys (length h) h v []
      | _ \<Rightarrow> own_enum (boxed E v) []
               @ enum_keys (length h) h (plink (boxed E v)) (map fst (props (boxed E v))))"

subsection \<open>Writing properties\<close>

text \<open>
  The write of a data property on an object: the value of an existing data property
  is replaced and its attributes kept; a new property is enumerable and writable.
\<close>

fun write_slot :: "string \<Rightarrow> val \<Rightarrow> (string \<times> slot) list \<Rightarrow> (string \<times> slot) list" where
  "write_slot k v [] = [(k, Data v True True)]"
| "write_slot k v ((k', p) # ps) =
     (if k' = k
      then (k', case p of Data x e w \<Rightarrow> Data v e w | Accessor g s e \<Rightarrow> Data v e True) # ps
      else (k', p) # write_slot k v ps)"

definition store :: "heap \<Rightarrow> addr \<Rightarrow> string \<Rightarrow> val \<Rightarrow> heap" where
  "store h a k v =
     (if a < length h then h[a := (h ! a)\<lparr>props := write_slot k v (props (h ! a))\<rparr>] else h)"

text \<open>A write that the object refuses is a type error in strict code and has no effect otherwise.\<close>

definition refuse :: "env \<Rightarrow> val \<Rightarrow> heap \<Rightarrow> val outcome" where
  "refuse E x h = (if strict E then Throw TypeError h else Return x h)"

definition call_setter :: "env \<Rightarrow> val \<Rightarrow> val \<Rightarrow> val \<Rightarrow> heap \<Rightarrow> val outcome" where
  "call_setter E s this x h =
     (if s = Undefined then refuse E x h
      else andThen (invoke E s this [x] h) (\<lambda>u h1. Return x h1))"

text \<open>
  \<^verbatim>\<open>v[k] = x\<close>: the value of the assignment is \<open>x\<close>. An accessor property, own or
  inherited, takes the write through its setter. A read-only data property, own or
  inherited, refuses it, and so does an object that is not extensible when the
  property would be new. A primitive has no properties to write.
\<close>

definition put :: "env \<Rightarrow> val \<Rightarrow> string \<Rightarrow> val \<Rightarrow> heap \<Rightarrow> val outcome" where
  "put E v k x h =
     (case v of
        Undefined \<Rightarrow> Throw TypeError h
      | Null \<Rightarrow> Throw TypeError h
      | Ref a \<Rightarrow>
          (case lookup h a of
             None \<Rightarrow> Return x h
           | Some ob \<Rightarrow>
               (case map_of (props ob) k of
                  Some (Data y e w) \<Rightarrow> (if w then Return x (store h a k x) else refuse E x h)
                | Some (Accessor g s e) \<Rightarrow> call_setter E s v x h
                | None \<Rightarrow>
                    (case chain_find (length h) h (plink ob) k of
                       Some (Accessor g s e) \<Rightarrow> call_setter E s v x h
                     | Some (Data y e w) \<Rightarrow>
                         (if w \<and> extensible ob then Return x (store h a k x)
                          else refuse E x h)
                     | None \<Rightarrow>
                         (if extensible ob then Return x (store h a k x)
                          else refuse E x h))))
      | _ \<Rightarrow>
          (case find_slot E v k h of
             Some (Accessor g s e) \<Rightarrow> call_setter E s v x h
           | _ \<Rightarrow> refuse E x h))"

section \<open>The module\<close>

text \<open>
  Each function below is the function of the same name in \<^verbatim>\<open>instance.js\<close>. A
  function that reads \<^verbatim>\<open>arguments\<close> takes the list of its actual arguments; a
  parameter that was not passed is \<^verbatim>\<open>undefined\<close>.
\<close>

subsection \<open>assign\<close>

text \<open>
  \<^verbatim>\<open>for (var property in source) { if (source.hasOwnProperty(property)) {
  object[property] = source[property]; } }\<close>
\<close>

fun assign_keys :: "env \<Rightarrow> val \<Rightarrow> val \<Rightarrow> string list \<Rightarrow> heap \<Rightarrow> unit outcome" where
  "assign_keys E object source [] h = Return () h"
| "assign_keys E object source (property # rest) h =
     (case call_hasOwnProperty E source property h of
        Throw e h1 \<Rightarrow> Throw e h1
      | Return own h1 \<Rightarrow>
          (if falsy own then assign_keys E object source rest h1
           else
             (case get E source property h1 of
                Throw e h2 \<Rightarrow> Throw e h2
              | Return v h2 \<Rightarrow>
                  (case put E object property v h2 of
                     Throw e h3 \<Rightarrow> Throw e h3
                   | Return u h3 \<Rightarrow> assign_keys E object source rest h3))))"

text \<open>
  \<^verbatim>\<open>for (var x = 1, nx = arguments.length; x < nx; ++x) { var source =
  Object(arguments[x]); ... }\<close>
\<close>

fun assign_sources :: "env \<Rightarrow> val \<Rightarrow> val list \<Rightarrow> heap \<Rightarrow> unit outcome" where
  "assign_sources E object [] h = Return () h"
| "assign_sources E object (a # rest) h =
     (case Object_cast E a h of
        (source, h1) \<Rightarrow>
          (case assign_keys E object source (for_in_keys E source h1) h1 of
             Throw e h2 \<Rightarrow> Throw e h2
           | Return u h2 \<Rightarrow> assign_sources E object rest h2))"

text \<open>The function the module uses where the host has no \<^verbatim>\<open>Object.assign\<close>.\<close>

definition assign_shim :: "env \<Rightarrow> val list \<Rightarrow> heap \<Rightarrow> val outcome" where
  "assign_shim E args h =
     (if nullish (arg args 0) then Throw TypeError h
      else
        (case Object_cast E (arg args 0) h of
           (output, h1) \<Rightarrow>
             andThen (assign_sources E (arg args 0) (drop 1 args) h1) (\<lambda>u h2.
               Return output h2)))"

definition assign :: "env \<Rightarrow> val list \<Rightarrow> heap \<Rightarrow> val outcome" where
  "assign E = (case Object_assign E of Some native \<Rightarrow> native | None \<Rightarrow> assign_shim E)"

subsection \<open>defaults\<close>

text \<open>
  \<^verbatim>\<open>for (var key in source) { if (target[key] === undefined) { target[key] =
  source[key]; } }\<close>: the function has no variable \<^verbatim>\<open>target\<close> (its parameter is
  \<^verbatim>\<open>object\<close>), so the identifier is looked up among the global variables.
\<close>

fun defaults_keys :: "env \<Rightarrow> val \<Rightarrow> string list \<Rightarrow> heap \<Rightarrow> unit outcome" where
  "defaults_keys E source [] h = Return () h"
| "defaults_keys E source (key # rest) h =
     (case globals E ''target'' of
        None \<Rightarrow> Throw ReferenceError h
      | Some target \<Rightarrow>
          (case get E target key h of
             Throw e h1 \<Rightarrow> Throw e h1
           | Return cur h1 \<Rightarrow>
               (if cur = Undefined then
                  (case get E source key h1 of
                     Throw e h2 \<Rightarrow> Throw e h2
                   | Return v h2 \<Rightarrow>
                       (case put E target key v h2 of
                          Throw e h3 \<Rightarrow> Throw e h3
                        | Return u h3 \<Rightarrow> defaults_keys E source rest h3))
                else defaults_keys E source rest h1)))"

fun defaults_sources :: "env \<Rightarrow> val list \<Rightarrow> heap \<Rightarrow> unit outcome" where
  "defaults_sources E [] h = Return () h"
| "defaults_sources E (source # rest) h =
     (case defaults_keys E source (for_in_keys E source h) h of
        Throw e h1 \<Rightarrow> Throw e h1
      | Return u h1 \<Rightarrow> defaults_sources E rest h1)"

definition defaults :: "env \<Rightarrow> val list \<Rightarrow> heap \<Rightarrow> val outcome" where
  "defaults E args h =
     (if nullish (arg args 0) then Throw TypeError h
      else
        (case Object_cast E (arg args 0) h of
           (output, h1) \<Rightarrow>
             andThen (defaults_sources E (drop 1 args) h1) (\<lambda>u h2.
               Return output h2)))"

subsection \<open>property, isDescriptor, defineProperty, defineProperties\<close>

text \<open>The function the module uses where the host's \<^verbatim>\<open>Object.defineProperty\<close> is missing or failed the probe.\<close>

definition property_shim :: "env \<Rightarrow> val \<Rightarrow> string \<Rightarrow> val \<Rightarrow> heap \<Rightarrow> val outcome" where
  "property_shim E object name descriptor h =
     (if falsy object then Throw TypeError h
      else if typeof h object \<noteq> T_object then Throw TypeError h
      else
        andThen (get E descriptor ''value'' h) (\<lambda>v h1.
          andThen (put E object name v h1) (\<lambda>u h2.
            Return object h2)))"

text \<open>\<^verbatim>\<open>DP_IS_OKAY && Object.defineProperty || function (object, name, descriptor) {...}\<close>\<close>

definition property :: "env \<Rightarrow> val \<Rightarrow> string \<Rightarrow> val \<Rightarrow> heap \<Rightarrow> val outcome" where
  "property E object name descriptor h =
     (if DP_IS_OKAY E then
        (case Object_defineProperty E of
           Some native \<Rightarrow> native [object, Str name, descriptor] h
         | None \<Rightarrow> property_shim E object name descriptor h)
      else property_shim E object name descriptor h)"

text \<open>
  \<^verbatim>\<open>return v != null && 'value' in v || 'get' in v || 'set' in v || 'writable' in v
  || 'configurable' in v || 'enumerable' in v;\<close> Here \<^verbatim>\<open>&&\<close> binds tighter than
  \<^verbatim>\<open>||\<close>, so only the first test is guarded by \<^verbatim>\<open>v != null\<close>.
\<close>

definition isDescriptor :: "val \<Rightarrow> heap \<Rightarrow> bool outcome" where
  "isDescriptor v h =
     andThen (if nullish v then Return False h else has_property v ''value'' h) (\<lambda>b1 h1.
       if b1 then Return True h1 else
       andThen (has_property v ''get'' h1) (\<lambda>b2 h2.
         if b2 then Return True h2 else
         andThen (has_property v ''set'' h2) (\<lambda>b3 h3.
           if b3 then Return True h3 else
           andThen (has_property v ''writable'' h3) (\<lambda>b4 h4.
             if b4 then Return True h4 else
             andThen (has_property v ''configurable'' h4) (\<lambda>b5 h5.
               if b5 then Return True h5 else
               has_property v ''enumerable'' h5)))))"

text \<open>
  \<^verbatim>\<open>if (typeof descriptor === 'object' && isDescriptor(descriptor)) { return
  property(object, name, descriptor); } return property(object, name, {value:
  descriptor});\<close>
\<close>

definition defineProperty :: "env \<Rightarrow> val \<Rightarrow> string \<Rightarrow> val \<Rightarrow> heap \<Rightarrow> val outcome" where
  "defineProperty E object name descriptor h =
     andThen (if typeof h descriptor = T_object then isDescriptor descriptor h
              else Return False h) (\<lambda>b h1.
       if b then property E object name descriptor h1
       else property E object name (Ref (length h1))
              (h1 @ [literal E [(''value'', descriptor)]]))"

text \<open>\<^verbatim>\<open>for (var name in descriptors) { defineProperty(object, name, descriptors[name]); }\<close>\<close>

fun defineProperties_keys :: "env \<Rightarrow> val \<Rightarrow> val \<Rightarrow> string list \<Rightarrow> heap \<Rightarrow> unit outcome" where
  "defineProperties_keys E object descriptors [] h = Return () h"
| "defineProperties_keys E object descriptors (name # rest) h =
     (case get E descriptors name h of
        Throw e h1 \<Rightarrow> Throw e h1
      | Return d h1 \<Rightarrow>
          (case defineProperty E object name d h1 of
             Throw e h2 \<Rightarrow> Throw e h2
           | Return u h2 \<Rightarrow> defineProperties_keys E object descriptors rest h2))"

definition defineProperties :: "env \<Rightarrow> val \<Rightarrow> val \<Rightarrow> heap \<Rightarrow> val outcome" where
  "defineProperties E object descriptors h =
     andThen (defineProperties_keys E object descriptors (for_in_keys E descriptors h) h)
       (\<lambda>u h1. Return object h1)"

subsection \<open>create\<close>

text \<open>
  \<^verbatim>\<open>new PrototypalIntermediate()\<close>: the constructor's body is empty, so the result is
  the new object, whose prototype is the constructor's \<^verbatim>\<open>prototype\<close> property when
  that is an object and \<^verbatim>\<open>Object.prototype\<close> otherwise.
\<close>

definition new_PrototypalIntermediate :: "env \<Rightarrow> heap \<Rightarrow> val outcome" where
  "new_PrototypalIntermediate E h =
     andThen (get E (Ref (PrototypalIntermediate E)) ''prototype'' h) (\<lambda>p h1.
       Return (Ref (length h1))
         (h1 @ [\<lparr>props = [],
                 plink = (case p of Ref a \<Rightarrow> p | _ \<Rightarrow> Ref (Object_prototype E)),
                 klass = Plain, extensible = True\<rparr>]))"

definition create :: "env \<Rightarrow> val \<Rightarrow> val \<Rightarrow> heap \<Rightarrow> val outcome" where
  "create E prototype descriptors h =
     andThen
       (case Object_create E of
          Some native \<Rightarrow> native [prototype] h
        | None \<Rightarrow>
            andThen (put E (Ref (PrototypalIntermediate E)) ''prototype'' prototype h)
              (\<lambda>u h1. new_PrototypalIntermediate E h1))
       (\<lambda>object h2.
          if \<not> falsy descriptors then defineProperties E object descriptors h2
          else Return object h2)"

subsection \<open>getOwnPropertyDescriptor\<close>

definition getOwnPropertyDescriptor_shim :: "env \<Rightarrow> val \<Rightarrow> string \<Rightarrow> heap \<Rightarrow> val outcome" where
  "getOwnPropertyDescriptor_shim E object name h =
     andThen (call_hasOwnProperty E object name h) (\<lambda>own h1.
       if \<not> falsy own then
         andThen (get E object name h1) (\<lambda>v h2.
           Return (Ref (length h2)) (h2 @ [literal E [(''value'', v)]]))
       else Return Undefined h1)"

definition getOwnPropertyDescriptor :: "env \<Rightarrow> val \<Rightarrow> string \<Rightarrow> heap \<Rightarrow> val outcome" where
  "getOwnPropertyDescriptor E object name h =
     (if DP_IS_OKAY E then
        (case Object_getOwnPropertyDescriptor E of
           Some native \<Rightarrow> native [object, Str name] h
         | None \<Rightarrow> getOwnPropertyDescriptor_shim E object name h)
      else getOwnPropertyDescriptor_shim E object name h)"

subsection \<open>getPrototypeOf, setPrototypeOf, proto\<close>

definition getPrototypeOf :: "env \<Rightarrow> val \<Rightarrow> heap \<Rightarrow> val outcome" where
  "getPrototypeOf E object h =
     (case Object_getPrototypeOf E of
        Some native \<Rightarrow> native [object] h
      | None \<Rightarrow>
          (if PROTO E then get E object ''__proto__'' h
           else
             andThen (get E object ''constructor'' h) (\<lambda>c h1.
               get E c ''prototype'' h1)))"

text \<open>
  The last branch is \<^verbatim>\<open>function (object, prototypt) { return
  object.constructor.prototype = prototype; }\<close>: the parameter is spelt
  \<^verbatim>\<open>prototypt\<close>, so \<^verbatim>\<open>prototype\<close> is looked up among the global variables. The
  left-hand side is evaluated first, then the right-hand side, then the assignment
  is made.
\<close>

definition setPrototypeOf :: "env \<Rightarrow> val \<Rightarrow> val \<Rightarrow> heap \<Rightarrow> val outcome" where
  "setPrototypeOf E object prototype h =
     (case Object_setPrototypeOf E of
        Some native \<Rightarrow> native [object, prototype] h
      | None \<Rightarrow>
          (if PROTO E then put E object ''__proto__'' prototype h
           else
             andThen (get E object ''constructor'' h) (\<lambda>c h1.
               if nullish c then Throw TypeError h1
               else
                 (case globals E ''prototype'' of
                    None \<Rightarrow> Throw ReferenceError h1
                  | Some g \<Rightarrow> put E c ''prototype'' g h1))))"

text \<open>
  \<^verbatim>\<open>proto: function (object, prototype) { if (agruments.length === 2) {...} else
  {...} }\<close>: the identifier is spelt \<^verbatim>\<open>agruments\<close>, which is no variable of the
  function, so it is looked up among the global variables.
\<close>

definition proto :: "env \<Rightarrow> val list \<Rightarrow> heap \<Rightarrow> val outcome" where
  "proto E args h =
     (case globals E ''agruments'' of
        None \<Rightarrow> Throw ReferenceError h
      | Some g \<Rightarrow>
          andThen (get E g ''length'' h) (\<lambda>n h1.
            if n = Num 2 then setPrototypeOf E (arg args 0) (arg args 1) h1
            else getPrototypeOf E (arg args 0) h1))"

section \<open>Notions used in the statements\<close>

text \<open>The value \<open>f\<close> is the built-in function of the given kind.\<close>

definition builtin_at :: "heap \<Rightarrow> val \<Rightarrow> klass \<Rightarrow> bool" where
  "builtin_at h f c =
     (case f of
        Ref fa \<Rightarrow> (case lookup h fa of None \<Rightarrow> False | Some fo \<Rightarrow> klass fo = c)
      | _ \<Rightarrow> False)"

text \<open>
  An object inherits the built-in \<^verbatim>\<open>hasOwnProperty\<close>: looking the name up on it
  finds a data property holding the built-in function, so that
  \<^verbatim>\<open>x.hasOwnProperty(k)\<close> is the test for an own property.
\<close>

definition inherits_hasOwnProperty :: "heap \<Rightarrow> val \<Rightarrow> bool" where
  "inherits_hasOwnProperty h x =
     (case chain_find (length h) h x ''hasOwnProperty'' of
        Some (Data f e w) \<Rightarrow> builtin_at h f HasOwnProperty
      | _ \<Rightarrow> False)"

text \<open>
  An object inherits the accessor \<^verbatim>\<open>__proto__\<close>: looking the name up on it finds an
  accessor property whose getter is the built-in one.
\<close>

definition inherits_proto_accessor :: "heap \<Rightarrow> val \<Rightarrow> bool" where
  "inherits_proto_accessor h x =
     (case chain_find (length h) h x ''__proto__'' of
        Some (Accessor g s e) \<Rightarrow> builtin_at h g ProtoGetter
      | _ \<Rightarrow> False)"

text \<open>The prototype chain that starts at \<open>v\<close> ends, within the given number of steps, in a value that is no object.\<close>

fun ends :: "nat \<Rightarrow> heap \<Rightarrow> val \<Rightarrow> bool" where
  "ends 0 h v = (case v of Ref a \<Rightarrow> False | _ \<Rightarrow> True)"
| "ends (Suc n) h v =
     (case v of
        Ref a \<Rightarrow> (case lookup h a of None \<Rightarrow> False | Some ob \<Rightarrow> ends n h (plink ob))
      | _ \<Rightarrow> True)"

text \<open>A property that does not stand in the way of a write: none, or a writable data property.\<close>

definition gives_way :: "slot option \<Rightarrow> bool" where
  "gives_way r =
     (case r of None \<Rightarrow> True | Some (Data x e w) \<Rightarrow> w | Some (Accessor g s e) \<Rightarrow> False)"

text \<open>
  The assignment \<^verbatim>\<open>o[k] = x\<close> on the object at \<open>a\<close> is an ordinary write: \<open>k\<close> is an
  own writable data property of the object, or the object is extensible and has no
  own property \<open>k\<close>, and its prototype chain (one that ends, as every chain the
  language builds does) holds neither an accessor nor a read-only property \<open>k\<close>. In
  particular \<open>k\<close> is not \<^verbatim>\<open>__proto__\<close> on an object that inherits that accessor.
\<close>

definition ordinary_write :: "heap \<Rightarrow> addr \<Rightarrow> string \<Rightarrow> bool" where
  "ordinary_write h a k =
     (a < length h \<and>
      (case map_of (props (h ! a)) k of
         Some p \<Rightarrow> gives_way (Some p)
       | None \<Rightarrow>
           extensible (h ! a) \<and> ends (length h) h (plink (h ! a))
           \<and> gives_way (chain_find (length h) h (plink (h ! a)) k)))"




text \<open>
  \<^verbatim>\<open>Object.prototype\<close> as the language defines it: an object of the heap with no
  prototype and no enumerable property of its own.
\<close>

definition bare_Object_prototype :: "env \<Rightarrow> heap \<Rightarrow> bool" where
  "bare_Object_prototype E h =
     (case lookup h (Object_prototype E) of
        None \<Rightarrow> False
      | Some ob \<Rightarrow> plink ob = Null \<and> own_enum ob [] = [])"


definition data_value :: "obj \<Rightarrow> string \<Rightarrow> val option" where
  "data_value ob k = (case map_of (props ob) k of Some (Data v e w) \<Rightarrow> Some v | _ \<Rightarrow> None)"





text \<open>
  What the key loop of \<^verbatim>\<open>assign\<close> does to the heap when every write is an ordinary
  one: for each key that is an own data property of the source, its value is stored
  on the target.
\<close>

fun copy_keys :: "heap \<Rightarrow> addr \<Rightarrow> obj \<Rightarrow> string list \<Rightarrow> heap" where
  "copy_keys g t so [] = g"
| "copy_keys g t so (k # ks) =
     (case data_value so k of
        None \<Rightarrow> copy_keys g t so ks
      | Some v \<Rightarrow> copy_keys (store g t k v) t so ks)"


section \<open>Concrete hosts and heaps\<close>

text \<open>
  A host of the kind the module's fallbacks are written for: no native
  \<^verbatim>\<open>Object.*\<close> primitive the module looks for, strict code, and none of the
  identifiers \<^verbatim>\<open>target\<close>, \<^verbatim>\<open>agruments\<close>, \<^verbatim>\<open>prototype\<close> bound as a global variable. A
  user function, if one were called, throws. The host has the \<^verbatim>\<open>__proto__\<close>
  accessor, so the module's flag \<^verbatim>\<open>PROTO\<close> is set.
\<close>

definition legacy_host :: env where
  "legacy_host =
     \<lparr>Object_assign = None, Object_create = None, Object_defineProperty = None,
      Object_getOwnPropertyDescriptor = None, Object_getPrototypeOf = None,
      Object_setPrototypeOf = None, DP_IS_OKAY = False, PROTO = True,
      PrototypalIntermediate = 3, Object_prototype = 0, Boolean_prototype = 0,
      Number_prototype = 0, String_prototype = 0, strict = True,
      globals = (\<lambda>x. None),
      call_function = (\<lambda>f this args h. Throw (Thrown Undefined) h)\<rparr>"

text \<open>A host without the \<^verbatim>\<open>__proto__\<close> accessor, and the same with a global variable \<^verbatim>\<open>prototype\<close>.\<close>

definition bare_host :: env where
  "bare_host = legacy_host\<lparr>PROTO := False\<rparr>"

definition global_host :: env where
  "global_host =
     bare_host\<lparr>globals := (\<lambda>x. if x = ''prototype'' then Some (Ref 11) else None)\<rparr>"

text \<open>The first host with an engine that does not know strict code.\<close>

definition loose_host :: env where
  "loose_host = legacy_host\<lparr>strict := False\<rparr>"

definition hidden :: "val \<Rightarrow> slot" where
  "hidden v = Data v False True"

definition visible :: "val \<Rightarrow> slot" where
  "visible v = Data v True True"

text \<open>
  The objects every heap below starts with: \<^verbatim>\<open>Object.prototype\<close> (address 0), the
  built-in \<^verbatim>\<open>hasOwnProperty\<close> (1), the constructor \<^verbatim>\<open>Object\<close> (2) with its read-only
  \<^verbatim>\<open>prototype\<close>, the module's \<^verbatim>\<open>PrototypalIntermediate\<close> (3) and its initial
  \<^verbatim>\<open>prototype\<close> object (4), and the getter (5) and the setter (6) of \<^verbatim>\<open>__proto__\<close>.
  On a host with the accessor, \<^verbatim>\<open>Object.prototype\<close> holds it.
\<close>

definition realm_of :: "bool \<Rightarrow> heap" where
  "realm_of accessor =
     [\<lparr>props = [(''constructor'', hidden (Ref 2)), (''hasOwnProperty'', hidden (Ref 1))]
               @ (if accessor then [(''__proto__'', Accessor (Ref 5) (Ref 6) False)] else []),
       plink = Null, klass = Plain, extensible = True\<rparr>,
      \<lparr>props = [], plink = Ref 0, klass = HasOwnProperty, extensible = True\<rparr>,
      \<lparr>props = [(''prototype'', Data (Ref 0) False False)], plink = Ref 0, klass = Function,
       extensible = True\<rparr>,
      \<lparr>props = [(''prototype'', hidden (Ref 4))], plink = Ref 0, klass = Function,
       extensible = True\<rparr>,
      \<lparr>props = [(''constructor'', hidden (Ref 3))], plink = Ref 0, klass = Plain,
       extensible = True\<rparr>,
      \<lparr>props = [], plink = Ref 0, klass = ProtoGetter, extensible = True\<rparr>,
      \<lparr>props = [], plink = Ref 0, klass = ProtoSetter, extensible = True\<rparr>]"

definition realm :: heap where
  "realm = realm_of True"

definition old_realm :: heap where
  "old_realm = realm_of False"

text \<open>An ordinary object with the given properties, all enumerable and writable, and prototype.\<close>

definition object_of :: "(string \<times> val) list \<Rightarrow> val \<Rightarrow> obj" where
  "object_of kvs p =
     \<lparr>props = map (\<lambda>(k, v). (k, visible v)) kvs, plink = p, klass = Plain, extensible = True\<rparr>"

text \<open>\<^verbatim>\<open>{a: 1}\<close> at address 7 and \<^verbatim>\<open>{a: 2, b: 2}\<close> at address 8.\<close>

definition heap_ab :: heap where
  "heap_ab =
     realm @
     [object_of [(''a'', Num 1)] (Ref 0),
      object_of [(''a'', Num 2), (''b'', Num 2)] (Ref 0)]"

text \<open>
  An empty object at address 7 and the descriptor-shaped object
  \<^verbatim>\<open>{value: 5, enumerable: false}\<close> at address 8.
\<close>

definition heap_desc :: heap where
  "heap_desc =
     realm @
     [object_of [] (Ref 0),
      object_of [(''value'', Num 5), (''enumerable'', Bool False)] (Ref 0)]"

text \<open>
  An empty object at address 7 and, at address 8, a function that carries an own
  property \<^verbatim>\<open>value\<close>.
\<close>

definition heap_fn :: heap where
  "heap_fn =
     realm @
     [object_of [] (Ref 0),
      \<lparr>props = [(''value'', visible (Num 7))], plink = Ref 0, klass = Function,
       extensible = True\<rparr>]"



text \<open>
  \<^verbatim>\<open>{a: 1}\<close> with no prototype at address 7 and an empty object at address 8.
\<close>

definition heap_bare :: heap where
  "heap_bare =
     realm @
     [object_of [(''a'', Num 1)] Null,
      object_of [] (Ref 0)]"

text \<open>
  The String object \<^verbatim>\<open>new String('ab')\<close> at address 7 and the object
  \<^verbatim>\<open>{value: 5}\<close> at address 8.
\<close>

definition heap_string :: heap where
  "heap_string = realm @ [boxed legacy_host (Str ''ab''), object_of [(''value'', Num 5)] (Ref 0)]"

text \<open>
  An empty object at address 7, an object at address 8 with an own enumerable data
  property \<^verbatim>\<open>__proto__\<close> (as \<^verbatim>\<open>JSON.parse\<close> makes one) whose value is the empty
  object at address 9.
\<close>

definition heap_proto_key :: heap where
  "heap_proto_key =
     realm @
     [object_of [] (Ref 0),
      object_of [(''__proto__'', Ref 9)] (Ref 0),
      object_of [] (Ref 0)]"

text \<open>
  On a host without the accessor: a user constructor \<^verbatim>\<open>F\<close> at address 7, its
  \<^verbatim>\<open>prototype\<close> object at 8, an object built by \<^verbatim>\<open>new F()\<close> at 9, and two empty
  objects at 10 and 11.
\<close>

definition heap_ctor :: heap where
  "heap_ctor =
     old_realm @
     [\<lparr>props = [(''prototype'', hidden (Ref 8))], plink = Ref 0, klass = Function,
       extensible = True\<rparr>,
      \<lparr>props = [(''constructor'', hidden (Ref 7))], plink = Ref 0, klass = Plain,
       extensible = True\<rparr>,
      object_of [] (Ref 8),
      object_of [] (Ref 0),
      object_of [] (Ref 0)]"

section \<open>Basic facts\<close>

lemmas concrete_defs = legacy_host_def bare_host_def global_host_def realm_def old_realm_def
  realm_of_def object_of_def hidden_def visible_def lookup_def
  falsy_def nullish_def typeof_def get_def find_slot_def put_def store_def literal_def
  invoke_def has_own_def proto_get_def proto_set_def refuse_def call_setter_def arg_def
  Object_cast_def for_in_keys_def own_enum_def call_hasOwnProperty_def is_link_def

lemma andThen_Return [simp]: "andThen (Return a h) f = f a h"
  by (simp add: andThen_def)

lemma andThen_Throw [simp]: "andThen (Throw e h) f = Throw e h"
  by (simp add: andThen_def)

lemma has_property_Null [simp]: "has_property Null k h = Throw TypeError h"
  by (simp add: has_property_def)


section \<open>assign with an invalid target\<close>

text \<open>
  C3. On a host without a native \<^verbatim>\<open>Object.assign\<close>, \<^verbatim>\<open>assign(null, ...sources)\<close>
  and \<^verbatim>\<open>assign(undefined, ...sources)\<close> throw a TypeError, whatever the sources are,
  and the heap at the throw is the heap of the call: nothing was written.
\<close>

theorem assign_invalid_target:
  assumes "Object_assign E = None"
  shows "assign E (Null # sources) h = Throw TypeError h
       \<and> assign E (Undefined # sources) h = Throw TypeError h"
  using assms by (simp add: assign_def assign_shim_def arg_def nullish_def)

theorem assign_invalid_target_witness:
  "assign legacy_host [Null, Ref 7] heap_ab = Throw TypeError heap_ab
 \<and> assign legacy_host [Undefined, Ref 7] heap_ab = Throw TypeError heap_ab"
proof -
  have "Object_assign legacy_host = None"
    by (simp add: legacy_host_def)
  then show ?thesis
    using assign_invalid_target [of legacy_host "[Ref 7]" heap_ab] by simp
qed

section \<open>defineProperty with a null value\<close>

text \<open>
  C4. \<^verbatim>\<open>defineProperty(object, name, null)\<close> throws a TypeError on every host, for
  every target and name, and writes nothing: \<^verbatim>\<open>typeof null\<close> is \<^verbatim>\<open>'object'\<close>, so
  \<^verbatim>\<open>isDescriptor(null)\<close> is called, and there only the test for \<^verbatim>\<open>'value'\<close> is
  guarded by \<^verbatim>\<open>v != null\<close>; the test \<^verbatim>\<open>'get' in null\<close> throws. The value
  \<^verbatim>\<open>null\<close> is therefore not treated as the shorthand \<^verbatim>\<open>{value: null}\<close>.
\<close>

theorem defineProperty_null_throws:
  "defineProperty E object name Null h = Throw TypeError h"
  by (simp add: defineProperty_def typeof_def isDescriptor_def nullish_def)

section \<open>defaults\<close>

text \<open>
  C2. \<^verbatim>\<open>defaults({a: 1}, {a: 2, b: 2})\<close> throws a ReferenceError at the first key of
  the source, where the function reads the identifier \<^verbatim>\<open>target\<close>, and leaves the heap
  as it was: the target is still \<^verbatim>\<open>{a: 1}\<close>, the key \<^verbatim>\<open>b\<close> was not copied.
\<close>

theorem defaults_scenario_throws:
  "defaults legacy_host [Ref 7, Ref 8] heap_ab = Throw ReferenceError heap_ab"
  by (simp add: defaults_def heap_ab_def concrete_defs)

section \<open>proto\<close>

text \<open>
  C9. Where no global variable \<^verbatim>\<open>agruments\<close> exists, \<^verbatim>\<open>proto\<close> throws a
  ReferenceError for every list of arguments, and neither \<^verbatim>\<open>setPrototypeOf\<close> nor
  \<^verbatim>\<open>getPrototypeOf\<close> is reached: the heap is unchanged.
\<close>

theorem proto_throws:
  assumes "globals E ''agruments'' = None"
  shows "proto E args h = Throw ReferenceError h"
  using assms by (simp add: proto_def)

theorem proto_throws_witness:
  "proto legacy_host [Ref 7, Ref 8] heap_ab = Throw ReferenceError heap_ab
 \<and> proto legacy_host [Ref 7] heap_ab = Throw ReferenceError heap_ab"
proof -
  have g: "globals legacy_host ''agruments'' = None"
    by (simp add: legacy_host_def)
  show ?thesis
    using proto_throws [OF g, of "[Ref 7, Ref 8]" heap_ab]
      proto_throws [OF g, of "[Ref 7]" heap_ab] by simp
qed

section \<open>Facts about the heap\<close>

lemma map_of_write_slot:
  "map_of (write_slot k v ps) k' =
     (if k' = k
      then Some (case map_of ps k of
                   None \<Rightarrow> Data v True True
                 | Some (Data x e w) \<Rightarrow> Data v e w
                 | Some (Accessor g s e) \<Rightarrow> Data v e True)
      else map_of ps k')"
  by (induction ps) (auto split: slot.splits)

lemma length_store [simp]: "length (store h a k v) = length h"
  by (simp add: store_def)

lemma lookup_store:
  "lookup (store h a k v) b =
     (if b = a \<and> a < length h
      then Some ((h ! a)\<lparr>props := write_slot k v (props (h ! a))\<rparr>)
      else lookup h b)"
  by (simp add: lookup_def store_def)

lemma lookup_valid: "a < length h \<Longrightarrow> lookup h a = Some (h ! a)"
  by (simp add: lookup_def)

lemma lookup_store_same:
  "a < length h \<Longrightarrow>
     lookup (store h a k v) a = Some ((h ! a)\<lparr>props := write_slot k v (props (h ! a))\<rparr>)"
  by (simp add: lookup_store)

lemma lookup_store_other: "b \<noteq> a \<Longrightarrow> lookup (store h a k v) b = lookup h b"
  by (simp add: lookup_store)

lemma store_out_of_range: "\<not> a < length h \<Longrightarrow> store h a k v = h"
  by (simp add: store_def)


lemma frame_store:
  "plink (store h a k v ! b) = plink (h ! b) \<and> klass (store h a k v ! b) = klass (h ! b)
     \<and> extensible (store h a k v ! b) = extensible (h ! b)"
  by (cases "b = a \<and> a < length h") (auto simp add: store_def)


lemma props_store_same:
  "a < length h \<Longrightarrow>
     map_of (props (store h a k v ! a)) k =
       Some (case map_of (props (h ! a)) k of
               None \<Rightarrow> Data v True True
             | Some (Data x e w) \<Rightarrow> Data v e w
             | Some (Accessor g s e) \<Rightarrow> Data v e True)"
  by (simp add: store_def map_of_write_slot)

lemma get_own_data:
  assumes "a < length h" and "map_of (props (h ! a)) k = Some (Data v e w)"
  shows "get E (Ref a) k h = Return v h"
proof -
  obtain n where n: "length h = Suc n"
    using assms(1) by (cases "length h") auto
  show ?thesis
    using assms by (simp add: get_def nullish_def find_slot_def n lookup_def)
qed

lemma get_store_same:
  assumes "a < length h"
  shows "get E (Ref a) k (store h a k v) = Return v (store h a k v)"
proof -
  have "\<exists>e w. map_of (props (store h a k v ! a)) k = Some (Data v e w)"
    using assms by (auto simp add: props_store_same split: option.split slot.split)
  then show ?thesis
    using assms get_own_data [of a "store h a k v" k v] by auto
qed

lemma put_ordinary:
  assumes "ordinary_write h a k"
  shows "put E (Ref a) k x h = Return x (store h a k x)"
  using assms
  by (auto simp add: ordinary_write_def put_def lookup_def gives_way_def
      split: option.splits slot.splits)

lemma lookup_append_literal:
  "lookup (h @ [ob]) a = (if a = length h then Some ob else lookup h a)"
  by (auto simp add: lookup_def nth_append)

lemma lookup_fresh: "lookup (h @ [ob]) (length h) = Some ob"
  by (simp add: lookup_append_literal)

lemma typeof_object_Ref:
  assumes "\<not> falsy object" and "typeof h object = T_object"
  obtains a where "object = Ref a"
  using assms by (cases object) (auto simp add: falsy_def typeof_def)

lemma typeof_append:
  assumes "typeof h v = T_object" and "klass ob = Plain"
  shows "typeof (h @ [ob]) v = T_object"
  using assms
  by (cases v) (auto simp add: typeof_def lookup_def nth_append split: if_splits)

lemma get_fresh_literal:
  "get E (Ref (length h)) k (h @ [literal E [(k, v)]]) = Return v (h @ [literal E [(k, v)]])"
  by (simp add: get_def nullish_def find_slot_def lookup_append_literal literal_def)

section \<open>setPrototypeOf on the last-resort branch\<close>

text \<open>
  C8. On a host with neither a native \<^verbatim>\<open>Object.setPrototypeOf\<close> nor the
  \<^verbatim>\<open>__proto__\<close> accessor, the last-resort branch assigns the global variable
  \<^verbatim>\<open>prototype\<close>, not its second argument. With such a global bound to the object at
  address 11, and \<^verbatim>\<open>o\<close> (address 9) built by a user constructor, the call
  \<^verbatim>\<open>setPrototypeOf(o, P)\<close> with \<open>P\<close> the object at address 10 succeeds, twice in a row,
  each time returning the global and storing it in the constructor's \<^verbatim>\<open>prototype\<close>;
  afterwards \<^verbatim>\<open>getPrototypeOf(o)\<close> is the global and not \<open>P\<close>.
\<close>

theorem setPrototypeOf_last_resort_assigns_global:
  "setPrototypeOf global_host (Ref 9) (Ref 10) heap_ctor =
     Return (Ref 11) (store heap_ctor 7 ''prototype'' (Ref 11))
 \<and> setPrototypeOf global_host (Ref 9) (Ref 10) (store heap_ctor 7 ''prototype'' (Ref 11)) =
     Return (Ref 11) (store heap_ctor 7 ''prototype'' (Ref 11))
 \<and> getPrototypeOf global_host (Ref 9) (store heap_ctor 7 ''prototype'' (Ref 11)) =
     Return (Ref 11) (store heap_ctor 7 ''prototype'' (Ref 11))
 \<and> getPrototypeOf global_host (Ref 9) (store heap_ctor 7 ''prototype'' (Ref 11)) \<noteq>
     Return (Ref 10) (store heap_ctor 7 ''prototype'' (Ref 11))"
  by (simp add: setPrototypeOf_def getPrototypeOf_def heap_ctor_def concrete_defs)

text \<open>
  Where no global variable \<^verbatim>\<open>prototype\<close> exists, the same branch never returns: the
  misspelt parameter makes the right-hand side an unbound identifier.
\<close>

lemma setPrototypeOf_last_resort_unbound:
  assumes "Object_setPrototypeOf E = None" and "\<not> PROTO E"
    and "globals E ''prototype'' = None"
  shows "\<exists>e g. setPrototypeOf E object prototype h = Throw e g"
proof (cases "get E object ''constructor'' h")
  case (Return c g)
  with assms show ?thesis by (simp add: setPrototypeOf_def)
next
  case (Throw e g)
  with assms show ?thesis by (simp add: setPrototypeOf_def)
qed

lemma setPrototypeOf_last_resort_unbound_example:
  "setPrototypeOf bare_host (Ref 9) (Ref 10) heap_ctor = Throw ReferenceError heap_ctor"
  by (simp add: setPrototypeOf_def heap_ctor_def concrete_defs)

section \<open>defineProperty with a function\<close>

text \<open>
  C10. For every value \<open>f\<close> whose type is the function type, whatever properties
  \<open>f\<close> carries, \<^verbatim>\<open>defineProperty(object, name, f)\<close> passes the fresh object
  \<^verbatim>\<open>{value: f}\<close> to the low-level setter; on the fallback path, with an object as
  target, the assignment made is \<^verbatim>\<open>object[name] = f\<close>, and where that is an ordinary
  write the call returns the target with \<open>f\<close> itself stored.
\<close>

theorem defineProperty_function_is_value:
  assumes "typeof h f = T_function"
  shows "defineProperty E object name f h =
           property E object name (Ref (length h)) (h @ [literal E [(''value'', f)]])
       \<and> ((\<not> DP_IS_OKAY E \<or> Object_defineProperty E = None)
            \<and> \<not> falsy object \<and> typeof h object = T_object \<longrightarrow>
          (\<exists>a. object = Ref a
             \<and> defineProperty E object name f h =
                 andThen (put E object name f (h @ [literal E [(''value'', f)]]))
                   (\<lambda>u h2. Return object h2)
             \<and> (ordinary_write (h @ [literal E [(''value'', f)]]) a name \<longrightarrow>
                  defineProperty E object name f h =
                    Return object (store (h @ [literal E [(''value'', f)]]) a name f))))"
proof -
  let ?h1 = "h @ [literal E [(''value'', f)]]"
  have d: "defineProperty E object name f h = property E object name (Ref (length h)) ?h1"
    using assms by (simp add: defineProperty_def)
  have s: "\<exists>a. object = Ref a
      \<and> defineProperty E object name f h =
          andThen (put E object name f ?h1) (\<lambda>u h2. Return object h2)
      \<and> (ordinary_write ?h1 a name \<longrightarrow>
           defineProperty E object name f h = Return object (store ?h1 a name f))"
    if shim: "\<not> DP_IS_OKAY E \<or> Object_defineProperty E = None"
      and t: "\<not> falsy object" "typeof h object = T_object"
  proof -
    obtain a where a: "object = Ref a"
      using t by (rule typeof_object_Ref)
    have p: "property E object name (Ref (length h)) ?h1
        = property_shim E object name (Ref (length h)) ?h1"
      using shim by (auto simp add: property_def split: option.split)
    have t1: "typeof ?h1 object = T_object"
      using t(2) by (rule typeof_append) (simp add: literal_def)
    have e: "property_shim E object name (Ref (length h)) ?h1 =
        andThen (put E object name f ?h1) (\<lambda>u h2. Return object h2)"
      using t(1) t1 by (simp add: property_shim_def get_fresh_literal)
    have "defineProperty E object name f h = Return object (store ?h1 a name f)"
      if "ordinary_write ?h1 a name"
      using d p e put_ordinary [OF that, of E f] by (simp add: a)
    with d p e a show ?thesis by simp
  qed
  show ?thesis using d s by blast
qed

theorem defineProperty_function_is_value_witness:
  "typeof heap_fn (Ref 8) = T_function
 \<and> has_property (Ref 8) ''value'' heap_fn = Return True heap_fn
 \<and> defineProperty legacy_host (Ref 7) ''k'' (Ref 8) heap_fn =
     Return (Ref 7) (store (heap_fn @ [literal legacy_host [(''value'', Ref 8)]]) 7 ''k'' (Ref 8))"
proof -
  have t: "typeof heap_fn (Ref 8) = T_function"
    by (simp add: typeof_def lookup_def heap_fn_def realm_def realm_of_def object_of_def)
  have p: "has_property (Ref 8) ''value'' heap_fn = Return True heap_fn"
    by (simp add: has_property_def lookup_def heap_fn_def realm_def realm_of_def object_of_def)
  have shim: "\<not> DP_IS_OKAY legacy_host \<or> Object_defineProperty legacy_host = None"
    by (simp add: legacy_host_def)
  have t7: "\<not> falsy (Ref 7)" "typeof heap_fn (Ref 7) = T_object"
    by (simp_all add: falsy_def typeof_def lookup_def heap_fn_def realm_def realm_of_def
        object_of_def)
  have ow: "ordinary_write (heap_fn @ [literal legacy_host [(''value'', Ref 8)]]) 7 ''k''"
    by (simp add: ordinary_write_def gives_way_def heap_fn_def realm_def realm_of_def
        object_of_def lookup_def hidden_def)
  obtain a where "Ref 7 = Ref a"
    and "ordinary_write (heap_fn @ [literal legacy_host [(''value'', Ref 8)]]) a ''k'' \<longrightarrow>
      defineProperty legacy_host (Ref 7) ''k'' (Ref 8) heap_fn =
      Return (Ref 7) (store (heap_fn @ [literal legacy_host [(''value'', Ref 8)]]) a ''k'' (Ref 8))"
    using defineProperty_function_is_value [OF t, of legacy_host "Ref 7" "''k''"] shim t7
    by blast
  then show ?thesis
    using t p ow by simp
qed

section \<open>The low-level property setter on the fallback path\<close>




text \<open>
  The same with the name \<^verbatim>\<open>__proto__\<close> on a host with the accessor: the setter of the
  accessor ignores the number, no own property appears, and the name still reads
  \<^verbatim>\<open>Object.prototype\<close>.
\<close>

lemma property_shim_proto_name:
  "property legacy_host (Ref 7) ''__proto__'' (Ref 8) heap_desc = Return (Ref 7) heap_desc
 \<and> get legacy_host (Ref 7) ''__proto__'' heap_desc = Return (Ref 0) heap_desc
 \<and> \<not> ordinary_write heap_desc 7 ''__proto__''"
  by (simp add: property_def property_shim_def heap_desc_def ordinary_write_def gives_way_def
      concrete_defs)

section \<open>Stability of property lookups\<close>

lemma chain_find_append:
  "chain_find n h x k = Some p \<Longrightarrow> chain_find (n + m) (h @ hs) x k = Some p"
proof (induction n arbitrary: x)
  case 0
  then show ?case by simp
next
  case (Suc n)
  show ?case
  proof (cases x)
    case (Ref a)
    with Suc.prems have a: "a < length h"
      by (simp add: lookup_def split: if_splits)
    then have l: "lookup (h @ hs) a = lookup h a"
      by (simp add: lookup_def nth_append)
    show ?thesis
    proof (cases "map_of (props (h ! a)) k")
      case None
      with Suc.prems a have "chain_find n h (plink (h ! a)) k = Some p"
        by (simp add: Ref lookup_def)
      then have "chain_find (n + m) (h @ hs) (plink (h ! a)) k = Some p"
        by (rule Suc.IH)
      with None a show ?thesis
        by (simp add: Ref l) (simp add: lookup_def)
    next
      case (Some q)
      with Suc.prems a show ?thesis
        by (simp add: Ref l) (simp add: lookup_def)
    qed
  next
    case Undefined
    with Suc.prems show ?thesis by simp
  next
    case Null
    with Suc.prems show ?thesis by simp
  next
    case (Bool b)
    with Suc.prems show ?thesis by simp
  next
    case (Num i)
    with Suc.prems show ?thesis by simp
  next
    case (Str s)
    with Suc.prems show ?thesis by simp
  qed
qed

lemma ends_append: "ends n h x \<Longrightarrow> ends (n + m) (h @ hs) x"
proof (induction n arbitrary: x)
  case 0
  then show ?case by (cases x; cases m) simp_all
next
  case (Suc n)
  show ?case
  proof (cases x)
    case (Ref a)
    with Suc.prems have a: "a < length h" and e: "ends n h (plink (h ! a))"
      by (simp_all add: lookup_def split: if_splits)
    have "lookup (h @ hs) a = Some (h ! a)"
      using a by (simp add: lookup_def nth_append)
    moreover have "ends (n + m) (h @ hs) (plink (h ! a))"
      using e by (rule Suc.IH)
    ultimately show ?thesis
      by (simp add: Ref)
  qed simp_all
qed

lemma chain_find_ends_append:
  "ends n h x \<Longrightarrow> chain_find (n + m) (h @ hs) x k = chain_find n h x k"
proof (induction n arbitrary: x)
  case 0
  then show ?case by (cases x; cases m) simp_all
next
  case (Suc n)
  show ?case
  proof (cases x)
    case (Ref a)
    with Suc.prems have a: "a < length h" and e: "ends n h (plink (h ! a))"
      by (simp_all add: lookup_def split: if_splits)
    have l: "lookup (h @ hs) a = Some (h ! a)" "lookup h a = Some (h ! a)"
      using a by (simp_all add: lookup_def nth_append)
    have "chain_find (n + m) (h @ hs) (plink (h ! a)) k = chain_find n h (plink (h ! a)) k"
      using e by (rule Suc.IH)
    then show ?thesis
      by (simp add: Ref l split: option.split)
  qed simp_all
qed

lemma chain_find_store:
  "k \<noteq> k' \<Longrightarrow> chain_find n (store h a k' v) x k = chain_find n h x k"
proof (induction n arbitrary: x)
  case 0
  then show ?case by simp
next
  case (Suc n)
  show ?case
  proof (cases x)
    case (Ref b)
    consider "b = a" "a < length h" | "b \<noteq> a" | "\<not> a < length h"
      by blast
    then show ?thesis
    proof cases
      case 1
      then show ?thesis
        using Suc lookup_valid [of a h]
        by (simp add: Ref lookup_store_same map_of_write_slot split: option.split)
    next
      case 2
      then show ?thesis
        using Suc by (simp add: Ref lookup_store_other split: option.split)
    next
      case 3
      then show ?thesis
        by (simp add: store_out_of_range)
    qed
  qed simp_all
qed

lemma ends_store: "ends n (store h a k v) x = ends n h x"
proof (induction n arbitrary: x)
  case 0
  then show ?case by simp
next
  case (Suc n)
  show ?case
  proof (cases x)
    case (Ref b)
    have "lookup (store h a k v) b = None \<longleftrightarrow> lookup h b = None"
      by (simp add: lookup_def)
    moreover have "plink (store h a k v ! b) = plink (h ! b)"
      using frame_store [of h a k v b] by simp
    ultimately show ?thesis
      using Suc by (simp add: Ref lookup_def)
  qed simp_all
qed

lemma ordinary_write_append:
  assumes "ordinary_write h a k"
  shows "ordinary_write (h @ hs) a k"
proof -
  from assms have a: "a < length h"
    by (simp add: ordinary_write_def)
  then have nth: "(h @ hs) ! a = h ! a"
    by (simp add: nth_append)
  show ?thesis
  proof (cases "map_of (props (h ! a)) k")
    case (Some p)
    with assms a show ?thesis
      by (simp add: ordinary_write_def nth)
  next
    case None
    with assms have e: "extensible (h ! a)" "ends (length h) h (plink (h ! a))"
      and g: "gives_way (chain_find (length h) h (plink (h ! a)) k)"
      by (simp_all add: ordinary_write_def)
    have "ends (length h + length hs) (h @ hs) (plink (h ! a))"
      using e(2) by (rule ends_append)
    moreover have "chain_find (length h + length hs) (h @ hs) (plink (h ! a)) k
        = chain_find (length h) h (plink (h ! a)) k"
      using e(2) by (rule chain_find_ends_append)
    ultimately show ?thesis
      using None a e(1) g by (simp add: ordinary_write_def nth)
  qed
qed


lemma builtin_at_store: "builtin_at (store h a k v) f c = builtin_at h f c"
proof (cases f)
  case (Ref fa)
  have "lookup (store h a k v) fa = None \<longleftrightarrow> lookup h fa = None"
    by (simp add: lookup_def)
  moreover have "klass (store h a k v ! fa) = klass (h ! fa)"
    using frame_store [of h a k v fa] by simp
  ultimately show ?thesis
    by (simp add: builtin_at_def Ref lookup_def)
qed (simp_all add: builtin_at_def)

lemma builtin_at_append: "builtin_at h f c \<Longrightarrow> builtin_at (h @ hs) f c"
  by (cases f) (auto simp add: builtin_at_def lookup_def nth_append split: if_splits)

lemma inherits_store:
  assumes "inherits_hasOwnProperty h x" and "k \<noteq> ''hasOwnProperty''"
  shows "inherits_hasOwnProperty (store h a k v) x"
  using assms
  by (auto simp add: inherits_hasOwnProperty_def chain_find_store builtin_at_store
      split: option.splits slot.splits)

lemma inherits_append:
  assumes "inherits_hasOwnProperty h x"
  shows "inherits_hasOwnProperty (h @ hs) x"
proof -
  from assms obtain f e w
    where p: "chain_find (length h) h x ''hasOwnProperty'' = Some (Data f e w)"
      and f: "builtin_at h f HasOwnProperty"
    by (auto simp add: inherits_hasOwnProperty_def split: option.splits slot.splits)
  have "chain_find (length h + length hs) (h @ hs) x ''hasOwnProperty'' = Some (Data f e w)"
    using p by (rule chain_find_append)
  then show ?thesis
    using builtin_at_append [OF f, of hs] by (simp add: inherits_hasOwnProperty_def)
qed

lemma inherits_child:
  assumes "inherits_hasOwnProperty h (plink ob)"
    and "map_of (props ob) ''hasOwnProperty'' = None"
  shows "inherits_hasOwnProperty (h @ [ob]) (Ref (length h))"
proof -
  from assms(1) obtain f e w
    where p: "chain_find (length h) h (plink ob) ''hasOwnProperty'' = Some (Data f e w)"
      and f: "builtin_at h f HasOwnProperty"
    by (auto simp add: inherits_hasOwnProperty_def split: option.splits slot.splits)
  have "chain_find (length h + 0) (h @ [ob]) (plink ob) ''hasOwnProperty'' = Some (Data f e w)"
    using p by (rule chain_find_append)
  then have "chain_find (length (h @ [ob])) (h @ [ob]) (Ref (length h)) ''hasOwnProperty''
      = Some (Data f e w)"
    using assms(2) by (simp add: lookup_append_literal)
  then show ?thesis
    using builtin_at_append [OF f, of "[ob]"] by (simp add: inherits_hasOwnProperty_def)
qed

lemma accessor_store:
  assumes "inherits_proto_accessor h x" and "k \<noteq> ''__proto__''"
  shows "inherits_proto_accessor (store h a k v) x"
  using assms
  by (auto simp add: inherits_proto_accessor_def chain_find_store builtin_at_store
      split: option.splits slot.splits)

lemma accessor_child:
  assumes "inherits_proto_accessor h (plink ob)"
    and "map_of (props ob) ''__proto__'' = None"
  shows "inherits_proto_accessor (h @ [ob]) (Ref (length h))"
proof -
  from assms(1) obtain g s e
    where p: "chain_find (length h) h (plink ob) ''__proto__'' = Some (Accessor g s e)"
      and f: "builtin_at h g ProtoGetter"
    by (auto simp add: inherits_proto_accessor_def split: option.splits slot.splits)
  have "chain_find (length h + 0) (h @ [ob]) (plink ob) ''__proto__'' = Some (Accessor g s e)"
    using p by (rule chain_find_append)
  then have "chain_find (length (h @ [ob])) (h @ [ob]) (Ref (length h)) ''__proto__''
      = Some (Accessor g s e)"
    using assms(2) by (simp add: lookup_append_literal)
  then show ?thesis
    using builtin_at_append [OF f, of "[ob]"] by (simp add: inherits_proto_accessor_def)
qed

lemma call_hasOwnProperty_builtin:
  assumes "inherits_hasOwnProperty h (Ref s)"
  shows "call_hasOwnProperty E (Ref s) k h = Return (Bool (has_own E (Ref s) k h)) h"
  using assms
  by (auto simp add: inherits_hasOwnProperty_def call_hasOwnProperty_def get_def nullish_def
      find_slot_def invoke_def builtin_at_def split: option.splits slot.splits val.splits)

lemma get_proto_accessor:
  assumes "inherits_proto_accessor h (Ref a)"
  shows "get E (Ref a) ''__proto__'' h = proto_get E (Ref a) h"
  using assms
  by (auto simp add: inherits_proto_accessor_def get_def nullish_def find_slot_def invoke_def
      builtin_at_def split: option.splits slot.splits val.splits)

lemma has_own_store_same:
  "a < length h \<Longrightarrow> has_own E (Ref a) k (store h a k v)"
  by (simp add: has_own_def lookup_store map_of_write_slot)

lemma roundtrip_core:
  assumes shim: "\<not> DP_IS_OKAY E \<or> Object_getOwnPropertyDescriptor E = None"
    and a: "a < length g"
    and inh: "inherits_hasOwnProperty (store g a name w) (Ref a)"
  shows "getOwnPropertyDescriptor E (Ref a) name (store g a name w) =
           Return (Ref (length g)) (store g a name w @ [literal E [(''value'', w)]])"
proof -
  have "getOwnPropertyDescriptor E (Ref a) name (store g a name w)
      = getOwnPropertyDescriptor_shim E (Ref a) name (store g a name w)"
    using shim by (auto simp add: getOwnPropertyDescriptor_def split: option.split)
  then show ?thesis
    using a by (simp add: getOwnPropertyDescriptor_shim_def call_hasOwnProperty_builtin [OF inh]
        has_own_store_same falsy_def get_store_same)
qed




section \<open>Round trip of defineProperty and getOwnPropertyDescriptor\<close>




text \<open>
  The round trip also fails where the write is not an ordinary one. With the name
  \<^verbatim>\<open>__proto__\<close> on a host with the accessor, \<^verbatim>\<open>defineProperty(target, '__proto__',
  1)\<close> returns the target, the setter of the accessor ignores the number, and
  \<^verbatim>\<open>getOwnPropertyDescriptor(target, '__proto__')\<close> is \<^verbatim>\<open>undefined\<close>.
\<close>

lemma defineProperty_roundtrip_proto_name:
  "defineProperty legacy_host (Ref 7) ''__proto__'' (Num 1) heap_desc =
     Return (Ref 7) (heap_desc @ [literal legacy_host [(''value'', Num 1)]])
 \<and> getOwnPropertyDescriptor legacy_host (Ref 7) ''__proto__''
       (heap_desc @ [literal legacy_host [(''value'', Num 1)]]) =
     Return Undefined (heap_desc @ [literal legacy_host [(''value'', Num 1)]])"
  by (simp add: defineProperty_def property_def property_shim_def getOwnPropertyDescriptor_def
      getOwnPropertyDescriptor_shim_def heap_desc_def concrete_defs)

section \<open>create\<close>

lemma enum_keys_Null [simp]: "enum_keys n h Null seen = []"
  by (cases n) simp_all

lemma own_enum_none: "own_enum ob [] = [] \<Longrightarrow> own_enum ob seen = []"
  by (simp add: own_enum_def filter_empty_conv)

lemma ordinary_write_child:
  assumes "map_of (props ob) k = None" and "extensible ob"
    and "ends (length h) h (plink ob)"
    and "gives_way (chain_find (length h) h (plink ob) k)"
  shows "ordinary_write (h @ [ob]) (length h) k"
proof -
  have "ends (length h + 1) (h @ [ob]) (plink ob)"
    using assms(3) by (rule ends_append)
  moreover have "chain_find (length h + 1) (h @ [ob]) (plink ob) k
      = chain_find (length h) h (plink ob) k"
    using assms(3) by (rule chain_find_ends_append)
  ultimately show ?thesis
    using assms(1,2,4) by (simp add: ordinary_write_def)
qed

lemma create_bridge_step:
  assumes "ordinary_write h (PrototypalIntermediate E) ''prototype''"
  shows "andThen (put E (Ref (PrototypalIntermediate E)) ''prototype'' (Ref p) h)
           (\<lambda>u h1. new_PrototypalIntermediate E h1) =
         Return (Ref (length h))
           (store h (PrototypalIntermediate E) ''prototype'' (Ref p)
              @ [\<lparr>props = [], plink = Ref p, klass = Plain, extensible = True\<rparr>])"
proof -
  from assms have "PrototypalIntermediate E < length h"
    by (simp add: ordinary_write_def)
  then show ?thesis
    using put_ordinary [OF assms, of E "Ref p"]
    by (simp add: new_PrototypalIntermediate_def get_store_same)
qed

lemma create_applies_descriptors:
  assumes "\<not> falsy descriptors"
  shows "create E prototype descriptors h =
           andThen (create E prototype Undefined h)
             (\<lambda>object g. defineProperties E object descriptors g)"
proof -
  have u: "falsy Undefined"
    by (simp add: falsy_def)
  show ?thesis
    using assms u
    by (simp add: create_def andThen_def split: outcome.splits option.splits)
qed

lemma for_in_keys_literal_x:
  assumes g: "lookup g m = Some (literal E [(''x'', Num 1)])"
    and op: "bare_Object_prototype E g"
  shows "for_in_keys E (Ref m) g = [''x'']"
proof -
  from g have "m < length g"
    by (simp add: lookup_def split: if_splits)
  then obtain n where n: "length g = Suc n"
    by (cases "length g") auto
  from op obtain ob where ob: "lookup g (Object_prototype E) = Some ob" "plink ob = Null"
    "own_enum ob [] = []"
    by (auto simp add: bare_Object_prototype_def split: option.splits)
  have "enum_keys n g (Ref (Object_prototype E)) [''x''] = []"
    using ob own_enum_none [OF ob(3), of "[''x'']"] by (cases n) simp_all
  then show ?thesis
    using g by (simp add: for_in_keys_def n literal_def own_enum_def)
qed

lemma get_own_literal_x:
  assumes g: "lookup g m = Some (literal E [(''x'', Num 1)])"
  shows "get E (Ref m) ''x'' g = Return (Num 1) g"
proof -
  from g have m: "m < length g" and "g ! m = literal E [(''x'', Num 1)]"
    by (simp_all add: lookup_def split: if_splits)
  then have "map_of (props (g ! m)) ''x'' = Some (Data (Num 1) True True)"
    by (simp add: literal_def)
  with m show ?thesis
    by (rule get_own_data)
qed

text \<open>
  C6 (as amended). On a host without a native \<^verbatim>\<open>Object.create\<close>, where the
  \<^verbatim>\<open>prototype\<close> property of the bridging constructor is an ordinary writable one:
  for every object \<open>P\<close>, \<^verbatim>\<open>create(P)\<close> returns a fresh object with no property of its
  own and with prototype link \<open>P\<close>; where \<^verbatim>\<open>getPrototypeOf\<close> reads the property
  \<^verbatim>\<open>__proto__\<close> and \<open>P\<close> inherits that accessor, \<^verbatim>\<open>getPrototypeOf\<close> of the new object
  is \<open>P\<close>. A descriptor map that is not falsy is applied to the new object before it
  is returned: \<^verbatim>\<open>create(P, D)\<close> is \<^verbatim>\<open>defineProperties(create(P), D)\<close>. On the fallback
  path of the setter and of \<^verbatim>\<open>getOwnPropertyDescriptor\<close>, with \<^verbatim>\<open>Object.prototype\<close> as
  the language defines it, \<open>P\<close> inheriting the built-in \<^verbatim>\<open>hasOwnProperty\<close>, and the
  prototype chain of \<open>P\<close> ending and holding neither an accessor nor a read-only
  property \<^verbatim>\<open>x\<close>, \<^verbatim>\<open>create(P, {x: 1})\<close> returns a fresh object \<open>o\<close> for which
  \<^verbatim>\<open>getOwnPropertyDescriptor(o, 'x').value\<close> is 1.
\<close>

theorem create_bridging:
  assumes nat: "Object_create E = None"
    and pw: "ordinary_write h (PrototypalIntermediate E) ''prototype''"
  shows "create E (Ref p) Undefined h =
           Return (Ref (length h))
             (store h (PrototypalIntermediate E) ''prototype'' (Ref p)
                @ [\<lparr>props = [], plink = Ref p, klass = Plain, extensible = True\<rparr>])
       \<and> (Object_getPrototypeOf E = None \<and> PROTO E \<and> inherits_proto_accessor h (Ref p) \<longrightarrow>
            getPrototypeOf E (Ref (length h))
              (store h (PrototypalIntermediate E) ''prototype'' (Ref p)
                 @ [\<lparr>props = [], plink = Ref p, klass = Plain, extensible = True\<rparr>]) =
            Return (Ref p)
              (store h (PrototypalIntermediate E) ''prototype'' (Ref p)
                 @ [\<lparr>props = [], plink = Ref p, klass = Plain, extensible = True\<rparr>]))
       \<and> (\<not> falsy descriptors \<longrightarrow>
            create E (Ref p) descriptors h =
              andThen (create E (Ref p) Undefined h)
                (\<lambda>object g. defineProperties E object descriptors g))
       \<and> ((\<not> DP_IS_OKAY E \<or> Object_defineProperty E = None)
            \<and> (\<not> DP_IS_OKAY E \<or> Object_getOwnPropertyDescriptor E = None)
            \<and> bare_Object_prototype E h
            \<and> Object_prototype E \<noteq> PrototypalIntermediate E
            \<and> inherits_hasOwnProperty h (Ref p)
            \<and> ends (length h) h (Ref p)
            \<and> gives_way (chain_find (length h) h (Ref p) ''x'') \<longrightarrow>
          (\<exists>h4. create E (Ref p) (Ref (length h)) (h @ [literal E [(''x'', Num 1)]]) =
                  Return (Ref (Suc (length h))) h4
             \<and> getOwnPropertyDescriptor E (Ref (Suc (length h))) ''x'' h4 =
                  Return (Ref (length h4)) (h4 @ [literal E [(''value'', Num 1)]])
             \<and> get E (Ref (length h4)) ''value'' (h4 @ [literal E [(''value'', Num 1)]]) =
                  Return (Num 1) (h4 @ [literal E [(''value'', Num 1)]])))"
proof -
  let ?PI = "PrototypalIntermediate E"
  let ?o = "\<lparr>props = [], plink = Ref p, klass = Plain, extensible = True\<rparr>"
  let ?h1 = "store h ?PI ''prototype'' (Ref p) @ [?o]"
  from pw have pi: "?PI < length h"
    by (simp add: ordinary_write_def)
  have one: "create E (Ref p) Undefined h = Return (Ref (length h)) ?h1"
    using nat create_bridge_step [OF pw, of p] by (simp add: create_def falsy_def)
  have two: "getPrototypeOf E (Ref (length h)) ?h1 = Return (Ref p) ?h1"
    if "Object_getPrototypeOf E = None" "PROTO E" and acc: "inherits_proto_accessor h (Ref p)"
  proof -
    have "inherits_proto_accessor (store h ?PI ''prototype'' (Ref p)) (plink ?o)"
      using acc by (simp add: accessor_store)
    then have "inherits_proto_accessor ?h1 (Ref (length (store h ?PI ''prototype'' (Ref p))))"
      by (rule accessor_child) simp
    then have "inherits_proto_accessor ?h1 (Ref (length h))"
      by simp
    then have "get E (Ref (length h)) ''__proto__'' ?h1 = proto_get E (Ref (length h)) ?h1"
      by (rule get_proto_accessor)
    then show ?thesis
      using that(1,2) by (simp add: getPrototypeOf_def proto_get_def lookup_append_literal)
  qed
  have three: "create E (Ref p) descriptors h =
      andThen (create E (Ref p) Undefined h) (\<lambda>object g. defineProperties E object descriptors g)"
    if "\<not> falsy descriptors"
    using that by (rule create_applies_descriptors)
  have four: "\<exists>h4. create E (Ref p) (Ref (length h)) (h @ [literal E [(''x'', Num 1)]]) =
                  Return (Ref (Suc (length h))) h4
             \<and> getOwnPropertyDescriptor E (Ref (Suc (length h))) ''x'' h4 =
                  Return (Ref (length h4)) (h4 @ [literal E [(''value'', Num 1)]])
             \<and> get E (Ref (length h4)) ''value'' (h4 @ [literal E [(''value'', Num 1)]]) =
                  Return (Num 1) (h4 @ [literal E [(''value'', Num 1)]])"
    if p_shim: "\<not> DP_IS_OKAY E \<or> Object_defineProperty E = None"
      and g_shim: "\<not> DP_IS_OKAY E \<or> Object_getOwnPropertyDescriptor E = None"
      and op: "bare_Object_prototype E h"
      and ne: "Object_prototype E \<noteq> ?PI"
      and inh: "inherits_hasOwnProperty h (Ref p)"
      and en: "ends (length h) h (Ref p)"
      and gw: "gives_way (chain_find (length h) h (Ref p) ''x'')"
  proof -
    let ?m = "length h"
    let ?lit = "literal E [(''x'', Num 1)]"
    let ?h0 = "h @ [?lit]"
    let ?g1 = "store ?h0 ?PI ''prototype'' (Ref p)"
    let ?g2 = "?g1 @ [?o]"
    let ?val = "literal E [(''value'', Num 1)]"
    let ?g3 = "?g2 @ [?val]"
    let ?g4 = "store ?g3 (Suc ?m) ''x'' (Num 1)"
    have pw0: "ordinary_write ?h0 ?PI ''prototype''"
      using pw by (rule ordinary_write_append)
    have bridge: "andThen (put E (Ref ?PI) ''prototype'' (Ref p) ?h0)
        (\<lambda>u h1. new_PrototypalIntermediate E h1) = Return (Ref (Suc ?m)) ?g2"
      using create_bridge_step [OF pw0, of p] by simp
    have m1: "lookup ?g1 ?m = Some ?lit"
      using pi by (simp add: lookup_store_other lookup_append_literal)
    have m2: "lookup ?g2 ?m = Some ?lit"
      using m1 by (simp add: lookup_append_literal)
    from op obtain ob where ob: "lookup h (Object_prototype E) = Some ob" "plink ob = Null"
      "own_enum ob [] = []"
      by (auto simp add: bare_Object_prototype_def split: option.splits)
    then have opl: "Object_prototype E < ?m"
      by (simp add: lookup_def split: if_splits)
    have "lookup ?g1 (Object_prototype E) = Some ob"
      using ob(1) opl ne by (simp add: lookup_store_other lookup_append_literal)
    then have "lookup ?g2 (Object_prototype E) = Some ob"
      using opl by (simp add: lookup_append_literal)
    then have op2: "bare_Object_prototype E ?g2"
      using ob by (simp add: bare_Object_prototype_def)
    have keys: "for_in_keys E (Ref ?m) ?g2 = [''x'']"
      using m2 op2 by (rule for_in_keys_literal_x)
    have gx: "get E (Ref ?m) ''x'' ?g2 = Return (Num 1) ?g2"
      using m2 by (rule get_own_literal_x)
    have shim: "property E obj name d g = property_shim E obj name d g" for obj name d g
      using p_shim by (auto simp add: property_def split: option.split)
    have "lookup ?g2 (length ?g1) = Some ?o"
      by (rule lookup_fresh)
    then have "typeof ?g2 (Ref (Suc ?m)) = T_object"
      by (simp add: typeof_def)
    then have t3: "typeof ?g3 (Ref (Suc ?m)) = T_object"
      by (rule typeof_append) (simp add: literal_def)
    have po: "plink ?o = Ref p"
      by simp
    have "ends (length h + length [?lit]) ?h0 (Ref p)"
      using en by (rule ends_append)
    then have "ends (length ?h0) ?h0 (Ref p)"
      by (simp only: length_append)
    then have e1: "ends (length ?g1) ?g1 (Ref p)"
      by (simp only: ends_store length_store)
    have "chain_find (length ?g1) ?g1 (Ref p) ''x'' = chain_find (length ?g1) ?h0 (Ref p) ''x''"
      by (rule chain_find_store) simp
    also have "\<dots> = chain_find (length ?h0) ?h0 (Ref p) ''x''"
      by (simp only: length_store)
    also have "\<dots> = chain_find (length h) h (Ref p) ''x''"
      using chain_find_ends_append [OF en, of "length [?lit]" "[?lit]" "''x''"]
      by (simp only: length_append)
    finally have cf: "chain_find (length ?g1) ?g1 (Ref p) ''x''
        = chain_find (length h) h (Ref p) ''x''" .
    have "gives_way (chain_find (length ?g1) ?g1 (plink ?o) ''x'')"
      using gw by (simp only: po cf)
    moreover have "ends (length ?g1) ?g1 (plink ?o)"
      using e1 by (simp only: po)
    ultimately have "ordinary_write (?g1 @ [?o]) (length ?g1) ''x''"
      by (intro ordinary_write_child) simp_all
    then have "ordinary_write ?g2 (Suc ?m) ''x''"
      by simp
    then have ow3: "ordinary_write ?g3 (Suc ?m) ''x''"
      by (rule ordinary_write_append)
    have dp: "defineProperty E (Ref (Suc ?m)) ''x'' (Num 1) ?g2 = Return (Ref (Suc ?m)) ?g4"
    proof -
      have "length ?g2 = Suc (Suc ?m)" by simp
      then have "get E (Ref (Suc (Suc ?m))) ''value'' ?g3 = Return (Num 1) ?g3"
        using get_fresh_literal [of E ?g2 "''value''" "Num 1"] by simp
      then show ?thesis
        using t3 put_ordinary [OF ow3, of E "Num 1"]
        by (simp add: defineProperty_def typeof_def shim property_shim_def falsy_def)
    qed
    have cr: "create E (Ref p) (Ref ?m) ?h0 = Return (Ref (Suc ?m)) ?g4"
      using nat bridge keys gx dp
      by (simp add: create_def falsy_def defineProperties_def)
    have "inherits_hasOwnProperty ?h0 (Ref p)"
      using inh by (rule inherits_append)
    then have "inherits_hasOwnProperty ?g1 (plink ?o)"
      by (simp add: inherits_store)
    then have "inherits_hasOwnProperty ?g2 (Ref (length ?g1))"
      by (rule inherits_child) simp
    then have "inherits_hasOwnProperty ?g2 (Ref (Suc ?m))"
      by simp
    then have "inherits_hasOwnProperty ?g3 (Ref (Suc ?m))"
      by (rule inherits_append)
    then have i4: "inherits_hasOwnProperty ?g4 (Ref (Suc ?m))"
      by (rule inherits_store) simp
    have "Suc ?m < length ?g3"
      by simp
    from roundtrip_core [OF g_shim this i4]
    have gd: "getOwnPropertyDescriptor E (Ref (Suc ?m)) ''x'' ?g4 =
        Return (Ref (length ?g4)) (?g4 @ [?val])"
      by simp
    have "get E (Ref (length ?g4)) ''value'' (?g4 @ [?val]) = Return (Num 1) (?g4 @ [?val])"
      by (rule get_fresh_literal)
    with cr gd show ?thesis
      by blast
  qed
  show ?thesis
    using one two three four by blast
qed

theorem create_bridging_witness:
  "create legacy_host (Ref 7) Undefined heap_ab =
     Return (Ref 9)
       (store heap_ab 3 ''prototype'' (Ref 7)
          @ [\<lparr>props = [], plink = Ref 7, klass = Plain, extensible = True\<rparr>])
 \<and> getPrototypeOf legacy_host (Ref 9)
       (store heap_ab 3 ''prototype'' (Ref 7)
          @ [\<lparr>props = [], plink = Ref 7, klass = Plain, extensible = True\<rparr>]) =
     Return (Ref 7)
       (store heap_ab 3 ''prototype'' (Ref 7)
          @ [\<lparr>props = [], plink = Ref 7, klass = Plain, extensible = True\<rparr>])
 \<and> create legacy_host (Ref 7) (Ref 8) heap_ab =
     andThen (create legacy_host (Ref 7) Undefined heap_ab)
       (\<lambda>object g. defineProperties legacy_host object (Ref 8) g)
 \<and> (\<exists>h4. create legacy_host (Ref 7) (Ref 9) (heap_ab @ [literal legacy_host [(''x'', Num 1)]]) =
            Return (Ref 10) h4
        \<and> getOwnPropertyDescriptor legacy_host (Ref 10) ''x'' h4 =
            Return (Ref (length h4)) (h4 @ [literal legacy_host [(''value'', Num 1)]])
        \<and> get legacy_host (Ref (length h4)) ''value'' (h4 @ [literal legacy_host [(''value'', Num 1)]]) =
            Return (Num 1) (h4 @ [literal legacy_host [(''value'', Num 1)]]))"
proof -
  have nat: "Object_create legacy_host = None"
    by (simp add: legacy_host_def)
  have pi3: "PrototypalIntermediate legacy_host = 3"
    by (simp add: legacy_host_def)
  have pw: "ordinary_write heap_ab (PrototypalIntermediate legacy_host) ''prototype''"
    by (simp add: pi3 ordinary_write_def gives_way_def heap_ab_def realm_def realm_of_def
        hidden_def)
  have branch: "Object_getPrototypeOf legacy_host = None \<and> PROTO legacy_host"
    by (simp add: legacy_host_def)
  have acc: "inherits_proto_accessor heap_ab (Ref 7)"
    by (simp add: inherits_proto_accessor_def builtin_at_def heap_ab_def realm_def realm_of_def
        object_of_def lookup_def hidden_def visible_def)
  have d: "\<not> falsy (Ref 8)"
    by (simp add: falsy_def)
  have shims: "\<not> DP_IS_OKAY legacy_host \<or> Object_defineProperty legacy_host = None"
    "\<not> DP_IS_OKAY legacy_host \<or> Object_getOwnPropertyDescriptor legacy_host = None"
    by (simp_all add: legacy_host_def)
  have op: "bare_Object_prototype legacy_host heap_ab"
    by (simp add: bare_Object_prototype_def own_enum_def legacy_host_def heap_ab_def realm_def
        realm_of_def lookup_def hidden_def)
  have ne: "Object_prototype legacy_host \<noteq> PrototypalIntermediate legacy_host"
    by (simp add: legacy_host_def)
  have inh: "inherits_hasOwnProperty heap_ab (Ref 7)"
    by (simp add: inherits_hasOwnProperty_def builtin_at_def heap_ab_def realm_def realm_of_def
        object_of_def lookup_def hidden_def visible_def)
  have en: "ends (length heap_ab) heap_ab (Ref 7)"
    by (simp add: heap_ab_def realm_def realm_of_def object_of_def lookup_def)
  have gw: "gives_way (chain_find (length heap_ab) heap_ab (Ref 7) ''x'')"
    by (simp add: gives_way_def heap_ab_def realm_def realm_of_def object_of_def lookup_def
        hidden_def visible_def)
  have len: "length heap_ab = 9"
    by (simp add: heap_ab_def realm_def realm_of_def)
  show ?thesis
    using create_bridging [OF nat pw, of 7 "Ref 8"] branch acc d shims op ne inh en gw
    by (simp only: len pi3) simp
qed

text \<open>
  C6 as stated fails for the prototype \<^verbatim>\<open>null\<close> where the bridging constructor is
  used: \<^verbatim>\<open>new PrototypalIntermediate()\<close> with a \<^verbatim>\<open>prototype\<close> that is not an object
  gives an object whose prototype is \<^verbatim>\<open>Object.prototype\<close>.
\<close>

theorem create_counterexample:
  "create legacy_host Null Undefined realm =
     Return (Ref 7)
       (store realm 3 ''prototype'' Null
          @ [\<lparr>props = [], plink = Ref 0, klass = Plain, extensible = True\<rparr>])
 \<and> getPrototypeOf legacy_host (Ref 7)
       (store realm 3 ''prototype'' Null
          @ [\<lparr>props = [], plink = Ref 0, klass = Plain, extensible = True\<rparr>]) =
     Return (Ref 0)
       (store realm 3 ''prototype'' Null
          @ [\<lparr>props = [], plink = Ref 0, klass = Plain, extensible = True\<rparr>])
 \<and> getPrototypeOf legacy_host (Ref 7)
       (store realm 3 ''prototype'' Null
          @ [\<lparr>props = [], plink = Ref 0, klass = Plain, extensible = True\<rparr>]) \<noteq>
     Return Null
       (store realm 3 ''prototype'' Null
          @ [\<lparr>props = [], plink = Ref 0, klass = Plain, extensible = True\<rparr>])"
  by (simp add: create_def new_PrototypalIntermediate_def getPrototypeOf_def concrete_defs)

text \<open>
  It fails as well for a prototype that does not inherit the accessor: with \<open>P\<close> an
  object whose own prototype is \<^verbatim>\<open>null\<close>, the new object has prototype link \<open>P\<close>, and
  \<^verbatim>\<open>getPrototypeOf\<close>, which reads the property \<^verbatim>\<open>__proto__\<close>, is \<^verbatim>\<open>undefined\<close>.
\<close>

lemma create_prototype_without_accessor:
  "create legacy_host (Ref 7) Undefined heap_bare =
     Return (Ref 9)
       (store heap_bare 3 ''prototype'' (Ref 7)
          @ [\<lparr>props = [], plink = Ref 7, klass = Plain, extensible = True\<rparr>])
 \<and> getPrototypeOf legacy_host (Ref 9)
       (store heap_bare 3 ''prototype'' (Ref 7)
          @ [\<lparr>props = [], plink = Ref 7, klass = Plain, extensible = True\<rparr>]) =
     Return Undefined
       (store heap_bare 3 ''prototype'' (Ref 7)
          @ [\<lparr>props = [], plink = Ref 7, klass = Plain, extensible = True\<rparr>])"
  by (simp add: create_def new_PrototypalIntermediate_def getPrototypeOf_def heap_bare_def
      concrete_defs)

section \<open>The loops of assign\<close>











lemma length_copy_keys [simp]: "length (copy_keys g t so ks) = length g"
  by (induction ks arbitrary: g) (simp_all split: option.split)






section \<open>The keys a source is enumerated with\<close>








section \<open>The wrapper of a primitive source\<close>








section \<open>What stays true of the sources still to come\<close>






section \<open>One source\<close>


section \<open>All sources\<close>



section \<open>assign\<close>




section \<open>Where the conditions on assign fail\<close>

text \<open>
  A source with an own enumerable property \<^verbatim>\<open>__proto__\<close>, on a host with the
  accessor: the assignment \<^verbatim>\<open>object['__proto__'] = ...\<close> runs the setter, so the
  prototype of the target becomes the value and the target gets no own property.
\<close>

lemma assign_proto_key:
  "assign legacy_host [Ref 7, Ref 8] heap_proto_key =
     Return (Ref 7) (heap_proto_key[7 := (heap_proto_key ! 7)\<lparr>plink := Ref 9\<rparr>])
 \<and> plink (heap_proto_key ! 7) = Ref 0
 \<and> \<not> has_own legacy_host (Ref 7) ''__proto__''
       (heap_proto_key[7 := (heap_proto_key ! 7)\<lparr>plink := Ref 9\<rparr>])"
  by (simp add: assign_def assign_shim_def heap_proto_key_def on_chain.simps concrete_defs)

text \<open>
  A target with a read-only property of the name: the String object at address 7 has
  the read-only property \<^verbatim>\<open>0\<close>, and copying the characters of \<^verbatim>\<open>'xy'\<close> onto it is
  a type error in strict code and has no effect otherwise.
\<close>

lemma assign_read_only_target:
  "assign legacy_host [Ref 7, Str ''xy''] heap_string =
     Throw TypeError (heap_string @ [boxed legacy_host (Str ''xy'')])
 \<and> assign loose_host [Ref 7, Str ''xy''] heap_string =
     Return (Ref 7) (heap_string @ [boxed legacy_host (Str ''xy'')])"
  by (simp add: assign_def assign_shim_def heap_string_def loose_host_def boxed_def
      string_slots_def index_key_def digit_def upt_rec concrete_defs)

text \<open>
  A target that is a primitive: the writes go to the primitive, which refuses them in
  strict code and ignores them otherwise, and the value returned is a new wrapper.
\<close>

lemma assign_primitive_target:
  "assign legacy_host [Num 5, Ref 7] heap_ab =
     Throw TypeError (heap_ab @ [boxed legacy_host (Num 5)])
 \<and> assign loose_host [Num 5, Ref 7] heap_ab =
     Return (Ref 9) (heap_ab @ [boxed legacy_host (Num 5)])"
  by (simp add: assign_def assign_shim_def heap_ab_def loose_host_def boxed_def concrete_defs)

text \<open>
  The module calls \<^verbatim>\<open>hasOwnProperty\<close> as a method of the object it inspects. On an
  object with no prototype the call is a type error: \<^verbatim>\<open>assign\<close> throws at the first
  key of such a source, and the fallback \<^verbatim>\<open>getOwnPropertyDescriptor\<close> throws after a
  \<^verbatim>\<open>defineProperty\<close> that succeeded.
\<close>

lemma assign_source_without_hasOwnProperty:
  "assign legacy_host [Ref 8, Ref 7] heap_bare = Throw TypeError heap_bare"
  by (simp add: assign_def assign_shim_def heap_bare_def concrete_defs)

lemma getOwnPropertyDescriptor_without_hasOwnProperty:
  "defineProperty legacy_host (Ref 7) ''k'' (Num 1) heap_bare =
     Return (Ref 7) (store (heap_bare @ [literal legacy_host [(''value'', Num 1)]]) 7 ''k'' (Num 1))
 \<and> getOwnPropertyDescriptor legacy_host (Ref 7) ''k''
       (store (heap_bare @ [literal legacy_host [(''value'', Num 1)]]) 7 ''k'' (Num 1)) =
     Throw TypeError
       (store (heap_bare @ [literal legacy_host [(''value'', Num 1)]]) 7 ''k'' (Num 1))"
  by (simp add: defineProperty_def property_def property_shim_def getOwnPropertyDescriptor_def
      getOwnPropertyDescriptor_shim_def heap_bare_def concrete_defs)

end
